theory Spec2Isabelle
  imports Main "HOL-Library.Log_Nat"
begin

section \<open>Data model\<close>

text \<open>
  A pandas float64 value: a finite number, an infinity, or NaN.  NaN is the
  marker pandas uses for a missing numeric value.
\<close>

datatype float = Fin rat | PosInf | NegInf | NaN

text \<open>A value of the \<open>sale_date\<close> column after \<open>.dt.date\<close>: a calendar date, or NaT.\<close>

datatype date = Date nat nat nat | NaT

text \<open>A cell of the frame that \<open>read_csv\<close> returns: a number or a string.\<close>

datatype cell = Num float | Str string

record dataframe =
  columns :: "string list"
  rows :: "cell list list"

datatype py_error = KeyError | TypeError | ValueError | StoreError

text \<open>One row of the frame after the coercions of lines 27 to 29.\<close>

record sales_row =
  order_id :: float
  sale_date :: date
  amount :: float
  region :: cell

record frame =
  has_region :: bool
  records :: "sales_row list"

section \<open>Loading and cleaning (lines 13 to 32)\<close>

definition rename_col :: "string \<Rightarrow> string" where
  "rename_col c =
     (if c = ''Order ID'' then ''order_id''
      else if c = ''Order Date'' then ''sale_date''
      else if c = ''TotalRevenue'' then ''amount''
      else c)"

definition rename :: "dataframe \<Rightarrow> dataframe" where
  "rename df = df\<lparr>columns := map rename_col (columns df)\<rparr>"

text \<open>
  The value of column \<open>c\<close> in one row.  A row shorter than the header is
  padded with NaN, as \<open>read_csv\<close> does.
\<close>

fun lookup :: "string list \<Rightarrow> cell list \<Rightarrow> string \<Rightarrow> cell" where
  "lookup [] vs c = Num NaN"
| "lookup (n # ns) [] c = Num NaN"
| "lookup (n # ns) (v # vs) c = (if n = c then v else lookup ns vs c)"

definition column :: "dataframe \<Rightarrow> string \<Rightarrow> cell list" where
  "column df c = map (\<lambda>r. lookup (columns df) r c) (rows df)"

text \<open>
  \<open>pd.to_numeric(..., errors='coerce')\<close> on one cell.  The parser of strings
  is pandas' own and is a parameter: it returns NaN for a string that is no
  number.
\<close>

fun to_numeric :: "(string \<Rightarrow> float) \<Rightarrow> cell \<Rightarrow> float" where
  "to_numeric num_of_str (Num v) = v"
| "to_numeric num_of_str (Str s) = num_of_str s"

definition isna :: "float \<Rightarrow> bool" where
  "isna v = (v = NaN)"

definition isnat :: "date \<Rightarrow> bool" where
  "isnat d = (d = NaT)"

text \<open>Line 32: \<open>dropna(subset=['order_id', 'sale_date', 'amount'])\<close>.\<close>

definition has_required :: "sales_row \<Rightarrow> bool" where
  "has_required r = (\<not> isna (order_id r) \<and> \<not> isnat (sale_date r) \<and> \<not> isna (amount r))"

definition dropna :: "sales_row list \<Rightarrow> sales_row list" where
  "dropna rs = filter has_required rs"

text \<open>
  Lines 20 to 29 on one row.  \<open>has_id\<close> says whether the frame has an
  \<open>order_id\<close> column; without one, line 22 stores the constant 0.
  \<open>to_datetime\<close> is pandas' date parser with \<open>errors='coerce'\<close>, followed by
  \<open>.dt.date\<close>; it is a parameter and sees the whole column, because pandas
  infers the date format from it.
\<close>

definition coerce_row ::
  "(string \<Rightarrow> float) \<Rightarrow> (cell list \<Rightarrow> cell \<Rightarrow> date) \<Rightarrow> dataframe \<Rightarrow> bool \<Rightarrow> cell list \<Rightarrow> sales_row" where
  "coerce_row num_of_str to_datetime df has_id r =
     \<lparr>order_id = to_numeric num_of_str
                   (if has_id then lookup (columns df) r ''order_id'' else Num (Fin 0)),
      sale_date = to_datetime (column df ''sale_date'') (lookup (columns df) r ''sale_date''),
      amount = to_numeric num_of_str (lookup (columns df) r ''amount''),
      region = lookup (columns df) r ''region''\<rparr>"

text \<open>
  The whole cleaning step.  A frame with no \<open>sale_date\<close> or no \<open>amount\<close>
  column raises KeyError at line 28 or 29; a column name that occurs twice
  after the renaming makes \<open>df[name]\<close> a frame, which \<open>to_numeric\<close> and
  \<open>to_datetime\<close> reject.
\<close>

definition normalize ::
  "(string \<Rightarrow> float) \<Rightarrow> (cell list \<Rightarrow> cell \<Rightarrow> date) \<Rightarrow> dataframe \<Rightarrow> py_error + frame" where
  "normalize num_of_str to_datetime df0 =
     (let df = rename df0;
          has_id = (''order_id'' \<in> set (columns df))
      in if 1 < count_list (columns df) ''order_id'' then Inl TypeError
         else if ''sale_date'' \<notin> set (columns df) then Inl KeyError
         else if 1 < count_list (columns df) ''sale_date'' then Inl ValueError
         else if ''amount'' \<notin> set (columns df) then Inl KeyError
         else if 1 < count_list (columns df) ''amount'' then Inl TypeError
         else Inr \<lparr>has_region = (''region'' \<in> set (columns df)),
                   records = dropna (map (coerce_row num_of_str to_datetime df has_id) (rows df))\<rparr>)"

section \<open>Floating-point addition\<close>

text \<open>
  binary64 addition, round to nearest, ties to even.  A finite value is kept
  as the rational it denotes.  \<open>ilog2 x\<close> is the exponent of the leading bit
  of a positive \<open>x\<close>; \<open>round53\<close> keeps 53 significant bits.  The exact sum of
  two binary64 numbers below the normal range is itself a binary64 number,
  so the subnormal range needs no case of its own; a rounded sum of
  magnitude \<open>2 ^ 1024\<close> or more is an infinity.
\<close>

definition round_half_even :: "rat \<Rightarrow> int" where
  "round_half_even x =
     (let f = \<lfloor>x\<rfloor>; d = x - of_int f
      in if d < 1 / 2 then f
         else if 1 / 2 < d then f + 1
         else if even f then f else f + 1)"

definition ilog2 :: "rat \<Rightarrow> int" where
  "ilog2 x =
     (let k = bitlen (fst (quotient_of x)) - bitlen (snd (quotient_of x))
      in if power_int 2 k \<le> x then k else k - 1)"

definition round53 :: "rat \<Rightarrow> rat" where
  "round53 x =
     (if x = 0 then 0
      else let s = ilog2 \<bar>x\<bar> - 52
           in of_int (round_half_even (x / power_int 2 s)) * power_int 2 s)"

definition overflow :: "rat \<Rightarrow> float" where
  "overflow x =
     (if 2 ^ 1024 \<le> x then PosInf
      else if x \<le> - (2 ^ 1024) then NegInf
      else Fin x)"

fun fadd :: "float \<Rightarrow> float \<Rightarrow> float" where
  "fadd NaN y = NaN"
| "fadd x NaN = NaN"
| "fadd PosInf NegInf = NaN"
| "fadd NegInf PosInf = NaN"
| "fadd PosInf y = PosInf"
| "fadd x PosInf = PosInf"
| "fadd NegInf y = NegInf"
| "fadd x NegInf = NegInf"
| "fadd (Fin a) (Fin b) = overflow (round53 (a + b))"

text \<open>A sum accumulates from 0, in row order.\<close>

definition fsum :: "float list \<Rightarrow> float" where
  "fsum xs = foldl fadd (Fin 0) xs"

section \<open>Aggregation (lines 133, 154, 175)\<close>

fun insort_by :: "('a \<Rightarrow> 'a \<Rightarrow> bool) \<Rightarrow> 'a \<Rightarrow> 'a list \<Rightarrow> 'a list" where
  "insort_by le x [] = [x]"
| "insort_by le x (y # ys) = (if le x y then x # y # ys else y # insort_by le x ys)"

definition sort_by :: "('a \<Rightarrow> 'a \<Rightarrow> bool) \<Rightarrow> 'a list \<Rightarrow> 'a list" where
  "sort_by le xs = foldr (insort_by le) xs []"

text \<open>
  \<open>df.groupby(key).agg({'amount': 'sum'}).reset_index()\<close>: one row for each
  distinct key that is not missing, in ascending key order, holding the sum
  of the amounts of the rows with that key.
\<close>

definition groupby_sum ::
  "('k \<Rightarrow> 'k \<Rightarrow> bool) \<Rightarrow> ('k \<Rightarrow> bool) \<Rightarrow> (sales_row \<Rightarrow> 'k) \<Rightarrow> sales_row list \<Rightarrow> ('k \<times> float) list" where
  "groupby_sum le missing key rs =
     map (\<lambda>k. (k, fsum (map amount (filter (\<lambda>r. key r = k) rs))))
       (sort_by le (remdups (filter (\<lambda>k. \<not> missing k) (map key rs))))"

fun float_le :: "float \<Rightarrow> float \<Rightarrow> bool" where
  "float_le NaN y = True"
| "float_le x NaN = False"
| "float_le NegInf y = True"
| "float_le x NegInf = False"
| "float_le x PosInf = True"
| "float_le PosInf y = False"
| "float_le (Fin a) (Fin b) = (a \<le> b)"

fun date_le :: "date \<Rightarrow> date \<Rightarrow> bool" where
  "date_le NaT y = True"
| "date_le x NaT = False"
| "date_le (Date y m d) (Date y' m' d') =
     (y < y' \<or> (y = y' \<and> (m < m' \<or> (m = m' \<and> d \<le> d'))))"

fun str_le :: "string \<Rightarrow> string \<Rightarrow> bool" where
  "str_le [] t = True"
| "str_le (a # s) [] = False"
| "str_le (a # s) (b # t) =
     ((of_char a :: nat) < of_char b \<or> (a = b \<and> str_le s t))"

text \<open>Keys of mixed type sort with the numbers before the strings.\<close>

fun cell_le :: "cell \<Rightarrow> cell \<Rightarrow> bool" where
  "cell_le (Num a) (Num b) = float_le a b"
| "cell_le (Num a) (Str t) = True"
| "cell_le (Str s) (Num b) = False"
| "cell_le (Str s) (Str t) = str_le s t"

fun cell_isna :: "cell \<Rightarrow> bool" where
  "cell_isna (Num v) = isna v"
| "cell_isna (Str s) = False"

text \<open>
  Line 136: \<open>astype('int', errors='ignore')\<close> truncates every key towards
  zero, or leaves the column as it is when some key is not finite.
\<close>

fun is_finite :: "float \<Rightarrow> bool" where
  "is_finite (Fin a) = True"
| "is_finite x = False"

fun trunc :: "float \<Rightarrow> float" where
  "trunc (Fin a) = Fin (of_int (if 0 \<le> a then \<lfloor>a\<rfloor> else \<lceil>a\<rceil>))"
| "trunc x = x"

definition astype_int :: "(float \<times> float) list \<Rightarrow> (float \<times> float) list" where
  "astype_int g =
     (if \<forall>k \<in> set (map fst g). is_finite k then map (\<lambda>(k, t). (trunc k, t)) g else g)"

definition gold1 :: "sales_row list \<Rightarrow> (float \<times> float) list" where
  "gold1 rs = astype_int (groupby_sum float_le isna order_id rs)"

definition gold2 :: "sales_row list \<Rightarrow> (date \<times> float) list" where
  "gold2 rs = groupby_sum date_le isnat sale_date rs"

definition gold3 :: "sales_row list \<Rightarrow> (cell \<times> float) list" where
  "gold3 rs = groupby_sum cell_le cell_isna region rs"

section \<open>The store session\<close>

text \<open>
  The Cassandra session is outside the script; its state is modelled as far
  as the script can see it.  A table is a map from its primary key to the
  other columns, so an INSERT on an existing key overwrites the row.
  \<open>uuid()\<close> draws a fresh identifier: the \<open>n\<close>-th identifier generated is
  \<open>n\<close>, which encodes that generated identifiers never collide.  Any call
  of \<open>execute\<close> may raise, for reasons the script does not control: \<open>faults\<close>
  says which calls do, by their position in the sequence of all calls, and
  \<open>clock\<close> counts the calls made so far.  A value is stored as it is passed;
  the conversion to the column types of the store is not modelled.
  \<open>stdout\<close> is what the script has printed.
\<close>

datatype cql_type = CqlInt | CqlDate | CqlFloat | CqlUuid | CqlText

text \<open>The columns of a table; the first one is its primary key.\<close>

type_synonym schema = "(string \<times> cql_type) list"

datatype stmt =
    CreateTable string schema
  | InsertBronze float date float
  | InsertSilver float date float
  | InsertGold1 float float
  | InsertGold2 date float
  | InsertGold3 cell float

datatype msg =
    TableCreated string
  | BronzeError sales_row
  | SilverError sales_row
  | Gold1Error float float
  | Gold2Error date float
  | Gold3Error cell float
  | Inserted string
  | SkippingGold3

record state =
  catalog :: "string \<rightharpoonup> schema"
  bronze_table :: "float \<rightharpoonup> date \<times> float"
  silver_table :: "nat \<rightharpoonup> float \<times> date \<times> float"
  gold_table1 :: "float \<rightharpoonup> float"
  gold_table2 :: "date \<rightharpoonup> float"
  gold_table3 :: "cell \<rightharpoonup> float"
  next_uuid :: nat
  clock :: nat
  faults :: "nat \<Rightarrow> bool"
  stdout :: "msg list"

fun apply_stmt :: "stmt \<Rightarrow> state \<Rightarrow> state" where
  "apply_stmt (CreateTable n sch) s =
     (if n \<in> dom (catalog s) then s else s\<lparr>catalog := (catalog s)(n \<mapsto> sch)\<rparr>)"
| "apply_stmt (InsertBronze k d a) s = s\<lparr>bronze_table := (bronze_table s)(k \<mapsto> (d, a))\<rparr>"
| "apply_stmt (InsertSilver k d a) s =
     s\<lparr>silver_table := (silver_table s)(next_uuid s \<mapsto> (k, d, a)),
       next_uuid := Suc (next_uuid s)\<rparr>"
| "apply_stmt (InsertGold1 k t) s = s\<lparr>gold_table1 := (gold_table1 s)(k \<mapsto> t)\<rparr>"
| "apply_stmt (InsertGold2 d t) s = s\<lparr>gold_table2 := (gold_table2 s)(d \<mapsto> t)\<rparr>"
| "apply_stmt (InsertGold3 r t) s = s\<lparr>gold_table3 := (gold_table3 s)(r \<mapsto> t)\<rparr>"

text \<open>\<open>session.execute\<close>: the flag of the result says whether the call raised.\<close>

definition execute :: "stmt \<Rightarrow> state \<Rightarrow> bool \<times> state" where
  "execute st s =
     (if faults s (clock s) then (True, s\<lparr>clock := Suc (clock s)\<rparr>)
      else (False, apply_stmt st (s\<lparr>clock := Suc (clock s)\<rparr>)))"

definition print :: "msg \<Rightarrow> state \<Rightarrow> state" where
  "print m s = s\<lparr>stdout := stdout s @ [m]\<rparr>"

section \<open>Creating the tables (lines 55 to 100)\<close>

definition table_specs :: "(string \<times> schema) list" where
  "table_specs =
     [(''bronze_table'', [(''order_id'', CqlInt), (''sale_date'', CqlDate), (''amount'', CqlFloat)]),
      (''silver_table'', [(''sale_id'', CqlUuid), (''order_id'', CqlInt), (''sale_date'', CqlDate),
                          (''amount'', CqlFloat)]),
      (''gold_table1'', [(''order_id'', CqlInt), (''total_sales'', CqlFloat)]),
      (''gold_table2'', [(''sale_date'', CqlDate), (''total_sales'', CqlFloat)]),
      (''gold_table3'', [(''region'', CqlText), (''total_sales'', CqlFloat)])]"

text \<open>
  The five \<open>CREATE TABLE IF NOT EXISTS\<close> statements run outside any
  \<open>try\<close>: a call that raises ends the script.
\<close>

fun create_tables :: "(string \<times> schema) list \<Rightarrow> state \<Rightarrow> py_error + state" where
  "create_tables [] s = Inr s"
| "create_tables ((n, sch) # ts) s =
     (case execute (CreateTable n sch) s of
        (True, s') \<Rightarrow> Inl StoreError
      | (False, s') \<Rightarrow> create_tables ts (print (TableCreated n) s'))"

definition provision :: "state \<Rightarrow> py_error + state" where
  "provision s = create_tables table_specs s"

section \<open>Writing the layers (lines 103 to 189)\<close>

fun bronze_loop :: "sales_row list \<Rightarrow> state \<Rightarrow> state" where
  "bronze_loop [] s = s"
| "bronze_loop (r # rs) s =
     (case execute (InsertBronze (order_id r) (sale_date r) (amount r)) s of
        (True, s') \<Rightarrow> bronze_loop rs (print (BronzeError r) s')
      | (False, s') \<Rightarrow> bronze_loop rs s')"

definition write_bronze :: "sales_row list \<Rightarrow> state \<Rightarrow> state" where
  "write_bronze rs s = print (Inserted ''Bronze Table'') (bronze_loop rs s)"

fun silver_loop :: "sales_row list \<Rightarrow> state \<Rightarrow> state" where
  "silver_loop [] s = s"
| "silver_loop (r # rs) s =
     (case execute (InsertSilver (order_id r) (sale_date r) (amount r)) s of
        (True, s') \<Rightarrow> silver_loop rs (print (SilverError r) s')
      | (False, s') \<Rightarrow> silver_loop rs s')"

definition write_silver :: "sales_row list \<Rightarrow> state \<Rightarrow> state" where
  "write_silver rs s = print (Inserted ''Silver Table'') (silver_loop rs s)"

fun gold1_loop :: "(float \<times> float) list \<Rightarrow> state \<Rightarrow> state" where
  "gold1_loop [] s = s"
| "gold1_loop ((k, t) # g) s =
     (case execute (InsertGold1 k t) s of
        (True, s') \<Rightarrow> gold1_loop g (print (Gold1Error k t) s')
      | (False, s') \<Rightarrow> gold1_loop g s')"

fun gold2_loop :: "(date \<times> float) list \<Rightarrow> state \<Rightarrow> state" where
  "gold2_loop [] s = s"
| "gold2_loop ((k, t) # g) s =
     (case execute (InsertGold2 k t) s of
        (True, s') \<Rightarrow> gold2_loop g (print (Gold2Error k t) s')
      | (False, s') \<Rightarrow> gold2_loop g s')"

fun gold3_loop :: "(cell \<times> float) list \<Rightarrow> state \<Rightarrow> state" where
  "gold3_loop [] s = s"
| "gold3_loop ((k, t) # g) s =
     (case execute (InsertGold3 k t) s of
        (True, s') \<Rightarrow> gold3_loop g (print (Gold3Error k t) s')
      | (False, s') \<Rightarrow> gold3_loop g s')"

definition write_gold1 :: "sales_row list \<Rightarrow> state \<Rightarrow> state" where
  "write_gold1 rs s = print (Inserted ''Gold Table 1'') (gold1_loop (gold1 rs) s)"

definition write_gold2 :: "sales_row list \<Rightarrow> state \<Rightarrow> state" where
  "write_gold2 rs s = print (Inserted ''Gold Table 2'') (gold2_loop (gold2 rs) s)"

text \<open>
  Lines 174 to 189.  The result also says which rollup was computed: None
  when the stage was skipped.
\<close>

definition region_stage :: "frame \<Rightarrow> state \<Rightarrow> (cell \<times> float) list option \<times> state" where
  "region_stage fr s =
     (if has_region fr
      then (Some (gold3 (records fr)),
            print (Inserted ''Gold Table 3'') (gold3_loop (gold3 (records fr)) s))
      else (None, print SkippingGold3 s))"

text \<open>Lines 52 to 189, on the cleaned frame.\<close>

definition materialize :: "frame \<Rightarrow> state \<Rightarrow> py_error + state" where
  "materialize fr s =
     (case provision s of
        Inl e \<Rightarrow> Inl e
      | Inr s1 \<Rightarrow>
          Inr (snd (region_stage fr
                 (write_gold2 (records fr)
                   (write_gold1 (records fr)
                     (write_silver (records fr)
                       (write_bronze (records fr) s1)))))))"

text \<open>The script: cleaning comes first, so an error there leaves the store untouched.\<close>

definition pipeline ::
  "(string \<Rightarrow> float) \<Rightarrow> (cell list \<Rightarrow> cell \<Rightarrow> date) \<Rightarrow> dataframe \<Rightarrow> state \<Rightarrow> py_error + state" where
  "pipeline num_of_str to_datetime df s =
     (case normalize num_of_str to_datetime df of
        Inl e \<Rightarrow> Inl e
      | Inr fr \<Rightarrow> materialize fr s)"

section \<open>Instances of the library parsers\<close>





text \<open>A sale of January 2024, to write concrete batches.\<close>

definition sale :: "rat \<Rightarrow> nat \<Rightarrow> rat \<Rightarrow> sales_row" where
  "sale k d a = \<lparr>order_id = Fin k, sale_date = Date 2024 1 d, amount = Fin a, region = Num NaN\<rparr>"

definition empty_store :: "(nat \<Rightarrow> bool) \<Rightarrow> state" where
  "empty_store f =
     \<lparr>catalog = Map.empty, bronze_table = Map.empty, silver_table = Map.empty,
      gold_table1 = Map.empty, gold_table2 = Map.empty, gold_table3 = Map.empty,
      next_uuid = 0, clock = 0, faults = f, stdout = []\<rparr>"

section \<open>Vocabulary of the properties\<close>

text \<open>
  The elements of a batch whose call of \<open>execute\<close> returned, and those whose
  call raised, when the first call of the batch is call number \<open>c\<close>.
\<close>

fun succeeded :: "(nat \<Rightarrow> bool) \<Rightarrow> nat \<Rightarrow> 'a list \<Rightarrow> 'a list" where
  "succeeded f c [] = []"
| "succeeded f c (x # xs) = (if f c then succeeded f (Suc c) xs else x # succeeded f (Suc c) xs)"


text \<open>What one successful INSERT does to the bronze table.\<close>

definition upsert_bronze :: "(float \<rightharpoonup> date \<times> float) \<Rightarrow> sales_row \<Rightarrow> (float \<rightharpoonup> date \<times> float)" where
  "upsert_bronze m r = m(order_id r \<mapsto> (sale_date r, amount r))"










section \<open>The write loops\<close>

lemma execute_simps:
  "faults s (clock s) \<Longrightarrow> execute st s = (True, s\<lparr>clock := Suc (clock s)\<rparr>)"
  "\<not> faults s (clock s) \<Longrightarrow> execute st s = (False, apply_stmt st (s\<lparr>clock := Suc (clock s)\<rparr>))"
  by (simp_all add: execute_def)

lemma bronze_loop_bronze:
  "bronze_table (bronze_loop rs s) =
     foldl upsert_bronze (bronze_table s) (succeeded (faults s) (clock s) rs)"
  by (induction rs arbitrary: s) (simp_all add: execute_def print_def upsert_bronze_def)

lemma bronze_loop_frame:
  "catalog (bronze_loop rs s) = catalog s"
  "silver_table (bronze_loop rs s) = silver_table s"
  "gold_table1 (bronze_loop rs s) = gold_table1 s"
  "gold_table2 (bronze_loop rs s) = gold_table2 s"
  "gold_table3 (bronze_loop rs s) = gold_table3 s"
  "next_uuid (bronze_loop rs s) = next_uuid s"
  "faults (bronze_loop rs s) = faults s"
  "clock (bronze_loop rs s) = clock s + length rs"
  by (induction rs arbitrary: s; simp add: execute_def print_def)+






lemma foldl_upsert_other:
  "\<forall>x \<in> set xs. order_id x \<noteq> k \<Longrightarrow> foldl upsert_bronze m xs k = m k"
  by (induction xs arbitrary: m) (auto simp: upsert_bronze_def)

lemma foldl_upsert_last:
  "\<forall>x \<in> set post. order_id x \<noteq> order_id r \<Longrightarrow>
   foldl upsert_bronze m (pre @ r # post) (order_id r) = Some (sale_date r, amount r)"
  by (simp add: foldl_upsert_other) (simp add: upsert_bronze_def)



lemma foldl_upsert_dom:
  "dom (foldl upsert_bronze m xs) = dom m \<union> order_id ` set xs"
  by (induction xs arbitrary: m) (auto simp: upsert_bronze_def)







lemma bronze_loop_untouched:
  "(\<forall>i < length rs. order_id (rs ! i) = k \<longrightarrow> faults s (clock s + i)) \<Longrightarrow>
   bronze_table (bronze_loop rs s) k = bronze_table s k"
proof (induction rs arbitrary: s)
  case Nil
  then show ?case by simp
next
  case (Cons r rs)
  have hd: "order_id r = k \<longrightarrow> faults s (clock s)"
    using Cons.prems [rule_format, of 0] by simp
  have tl: "\<forall>i < length rs. order_id (rs ! i) = k \<longrightarrow> faults s (Suc (clock s) + i)"
    using Cons.prems by force
  show ?case
  proof (cases "faults s (clock s)")
    case True
    then show ?thesis
      using Cons.IH [of "print (BronzeError r) (s\<lparr>clock := Suc (clock s)\<rparr>)"] tl
      by (simp add: execute_def print_def)
  next
    case False
    then have "order_id r \<noteq> k" using hd by blast
    then show ?thesis
      using Cons.IH [of "apply_stmt (InsertBronze (order_id r) (sale_date r) (amount r))
                          (s\<lparr>clock := Suc (clock s)\<rparr>)"] tl False
      by (simp add: execute_def)
  qed
qed

lemma bronze_loop_last_success:
  "j < length rs \<Longrightarrow> \<not> faults s (clock s + j) \<Longrightarrow>
   (\<forall>i < length rs. j < i \<and> order_id (rs ! i) = order_id (rs ! j) \<longrightarrow> faults s (clock s + i)) \<Longrightarrow>
   bronze_table (bronze_loop rs s) (order_id (rs ! j)) = Some (sale_date (rs ! j), amount (rs ! j))"
proof (induction rs arbitrary: s j)
  case Nil
  then show ?case by simp
next
  case (Cons r rs)
  show ?case
  proof (cases j)
    case 0
    let ?s1 = "apply_stmt (InsertBronze (order_id r) (sale_date r) (amount r))
                 (s\<lparr>clock := Suc (clock s)\<rparr>)"
    have ok: "\<not> faults s (clock s)" using Cons.prems(2) 0 by simp
    have "\<forall>i < length rs. order_id (rs ! i) = order_id r \<longrightarrow> faults ?s1 (clock ?s1 + i)"
      using Cons.prems(3) 0 by force
    from bronze_loop_untouched [OF this]
    show ?thesis using ok 0 by (simp add: execute_def)
  next
    case (Suc j')
    have a: "j' < length rs" using Cons.prems(1) Suc by simp
    have c: "\<forall>i < length rs. j' < i \<and> order_id (rs ! i) = order_id (rs ! j') \<longrightarrow>
               faults s (Suc (clock s) + i)"
      using Cons.prems(3) Suc by force
    show ?thesis
    proof (cases "faults s (clock s)")
      case True
      then show ?thesis
        using Cons.IH [of j' "print (BronzeError r) (s\<lparr>clock := Suc (clock s)\<rparr>)"]
          a c Cons.prems(2) Suc
        by (simp add: execute_def print_def)
    next
      case False
      then show ?thesis
        using Cons.IH [of j' "apply_stmt (InsertBronze (order_id r) (sale_date r) (amount r))
                          (s\<lparr>clock := Suc (clock s)\<rparr>)"]
          a c Cons.prems(2) Suc
        by (simp add: execute_def)
    qed
  qed
qed

section \<open>Bronze: a keyed upsert\<close>

text \<open>
  Claim C3.  In any batch, written over any bronze table, take a write
  whose call succeeds and after which no write with the same \<open>order_id\<close>
  succeeds.  Afterwards the row of that \<open>order_id\<close> holds the date and the
  amount of this write, whatever an earlier write of the batch or an earlier
  run stored under the key, and whether or not other calls of the batch
  raised.  No row is added beside it: the keys of the table are the old
  keys and the \<open>order_id\<close>s written successfully, and the rows of all other
  keys are as before.
\<close>

theorem bronze_last_write_wins:
  assumes j: "j < length rs"
    and ok: "\<not> faults s (clock s + j)"
    and later: "\<forall>i < length rs. j < i \<and> order_id (rs ! i) = order_id (rs ! j) \<longrightarrow>
                  faults s (clock s + i)"
  shows "bronze_table (bronze_loop rs s) (order_id (rs ! j)) = Some (sale_date (rs ! j), amount (rs ! j))
       \<and> dom (bronze_table (bronze_loop rs s))
           = dom (bronze_table s) \<union> order_id ` set (succeeded (faults s) (clock s) rs)
       \<and> (\<forall>k. k \<notin> order_id ` set (succeeded (faults s) (clock s) rs) \<longrightarrow>
             bronze_table (bronze_loop rs s) k = bronze_table s k)"
proof (intro conjI allI impI)
  show "bronze_table (bronze_loop rs s) (order_id (rs ! j)) = Some (sale_date (rs ! j), amount (rs ! j))"
    using j ok later by (rule bronze_loop_last_success)
next
  show "dom (bronze_table (bronze_loop rs s))
           = dom (bronze_table s) \<union> order_id ` set (succeeded (faults s) (clock s) rs)"
    by (simp add: bronze_loop_bronze foldl_upsert_dom)
next
  fix k assume "k \<notin> order_id ` set (succeeded (faults s) (clock s) rs)"
  then have "\<forall>x \<in> set (succeeded (faults s) (clock s) rs). order_id x \<noteq> k" by blast
  then show "bronze_table (bronze_loop rs s) k = bronze_table s k"
    by (simp add: bronze_loop_bronze foldl_upsert_other)
qed

theorem bronze_last_write_wins_witness:
  "bronze_table
     (bronze_loop [sale 1 3 2]
        (bronze_loop [sale 1 1 (21 / 2), sale 2 2 5, sale 1 2 7] (empty_store (\<lambda>i. i = 1))))
     (Fin 1) = Some (Date 2024 1 3, Fin 2)
   \<and> bronze_table
       (bronze_loop [sale 1 1 (21 / 2), sale 2 2 5, sale 1 2 7] (empty_store (\<lambda>i. i = 1)))
       (Fin 1) = Some (Date 2024 1 2, Fin 7)"
proof -
  let ?s0 = "empty_store (\<lambda>i. i = 1)"
  let ?b = "[sale 1 1 (21 / 2), sale 2 2 5, sale 1 2 7]"
  have h1: "(2::nat) < length ?b" "\<not> faults ?s0 (clock ?s0 + 2)"
    "\<forall>i < length ?b. 2 < i \<and> order_id (?b ! i) = order_id (?b ! 2) \<longrightarrow> faults ?s0 (clock ?s0 + i)"
    by (simp_all add: empty_store_def)
  have first: "bronze_table (bronze_loop ?b ?s0) (Fin 1) = Some (Date 2024 1 2, Fin 7)"
    using bronze_last_write_wins [OF h1] by (simp add: sale_def)
  let ?s1 = "bronze_loop ?b ?s0"
  have h2: "(0::nat) < length [sale 1 3 2]" "\<not> faults ?s1 (clock ?s1 + 0)"
    "\<forall>i < length [sale 1 3 2]. 0 < i \<and> order_id ([sale 1 3 2] ! i) = order_id ([sale 1 3 2] ! 0) \<longrightarrow>
        faults ?s1 (clock ?s1 + i)"
    by (simp_all add: bronze_loop_frame empty_store_def del: bronze_loop.simps)
  have second: "bronze_table (bronze_loop [sale 1 3 2] ?s1) (Fin 1) = Some (Date 2024 1 3, Fin 2)"
    using bronze_last_write_wins [OF h2] by (simp add: sale_def)
  show ?thesis using first second by simp
qed






















































lemma round_half_even_of_int: "round_half_even (of_int m) = m"
  by (simp add: round_half_even_def Let_def)

lemma ilog2_of_int:
  assumes "0 < n"
  shows "ilog2 (of_int n) = bitlen n - 1"
proof -
  have b: "2 ^ nat (bitlen n - 1) \<le> n" using bitlen_bounds [OF assms] by simp
  have pos: "0 \<le> bitlen n - 1" using assms by (simp add: bitlen_alt_def)
  have "power_int (2::rat) (bitlen n - 1) = 2 ^ nat (bitlen n - 1)"
    using pos by (simp add: power_int_def)
  also have "\<dots> = of_int (2 ^ nat (bitlen n - 1))" by simp
  also have "\<dots> \<le> of_int n" using b by (simp only: of_int_le_iff)
  finally have le: "power_int (2::rat) (bitlen n - 1) \<le> of_int n" .
  have q: "quotient_of (of_int n) = (n, 1)"
    by (metis Rat.of_int_def quotient_of_int)
  have one: "bitlen 1 = 1" by (simp add: bitlen_alt_def)
  show ?thesis
    unfolding ilog2_def Let_def q fst_conv snd_conv one using le by simp
qed

lemma round53_of_int:
  assumes "\<bar>n\<bar> \<le> 2 ^ 53"
  shows "round53 (of_int n) = of_int n"
proof (cases "n = 0")
  case True
  then show ?thesis by (simp add: round53_def)
next
  case False
  let ?a = "\<bar>n\<bar>"
  let ?L = "bitlen ?a - 1"
  have apos: "0 < ?a" using False by simp
  have lo: "2 ^ nat ?L \<le> ?a" and hi: "?a < 2 ^ nat (bitlen ?a)"
    using bitlen_bounds [OF apos] by simp_all
  have Lpos: "0 \<le> ?L" using apos by (simp add: bitlen_alt_def)
  have il: "ilog2 \<bar>of_int n :: rat\<bar> = ?L"
    using ilog2_of_int [OF apos] by simp
  have "(2::int) ^ nat ?L \<le> 2 ^ 53" using lo assms by linarith
  from power_le_imp_le_exp [OF _ this] have L53: "nat ?L \<le> 53" by simp
  have grid: "\<exists>m. (of_int n :: rat) = of_int m * power_int 2 (?L - 52)"
  proof (cases "?L \<le> 52")
    case True
    have "power_int (2::rat) (?L - 52) = inverse (2 ^ nat (52 - ?L))"
      using True by (cases "?L = 52") (simp_all add: power_int_def power_one_over inverse_eq_divide)
    then have "(of_int n :: rat) = of_int (n * 2 ^ nat (52 - ?L)) * power_int 2 (?L - 52)"
      by simp
    then show ?thesis by blast
  next
    case False
    then have L: "?L = 53" using L53 Lpos by linarith
    then have "?a = 2 ^ 53" using lo assms by simp
    then have "n = 2 ^ 53 \<or> n = - (2 ^ 53)" by linarith
    then have "(of_int n :: rat) = of_int (n div 2) * power_int 2 (?L - 52)"
      unfolding L by auto
    then show ?thesis by blast
  qed
  then obtain m where m: "(of_int n :: rat) = of_int m * power_int 2 (?L - 52)" by blast
  have nz: "power_int (2::rat) (?L - 52) \<noteq> 0" by simp
  have "(of_int n :: rat) / power_int 2 (?L - 52) = of_int m"
    using m nz by (simp add: field_simps)
  then have "round_half_even ((of_int n :: rat) / power_int 2 (?L - 52)) = m"
    by (simp only: round_half_even_of_int)
  then show ?thesis
    unfolding round53_def Let_def il using False m by simp
qed

lemma fadd_of_int:
  assumes "\<bar>a + b\<bar> \<le> 2 ^ 53"
  shows "fadd (Fin (of_int a)) (Fin (of_int b)) = Fin (of_int (a + b))"
proof -
  have r: "round53 (of_int a + of_int b) = of_int (a + b)"
    using round53_of_int [OF assms] by simp
  have "a + b \<le> 2 ^ 53" "- (2 ^ 53) \<le> a + b"
    using assms by linarith+
  then have "(of_int (a + b) :: rat) \<le> of_int (2 ^ 53)" "(of_int (- (2 ^ 53)) :: rat) \<le> of_int (a + b)"
    by (simp_all only: of_int_le_iff)
  moreover have "(of_int (2 ^ 53) :: rat) < 2 ^ 1024" "- (2 ^ 1024) < (of_int (- (2 ^ 53)) :: rat)"
    by simp_all
  ultimately have "\<not> 2 ^ 1024 \<le> (of_int (a + b) :: rat)" "\<not> (of_int (a + b) :: rat) \<le> - (2 ^ 1024)"
    by linarith+
  then show ?thesis unfolding fadd.simps r overflow_def by simp
qed

end
